theory Spec2Isabelle
  imports Main "HOL-Library.Word" "HOL-Library.Log_Nat" "HOL-Library.Sublist"
begin

section \<open>Python numbers\<close>

text \<open>
  The chart generator \<^verbatim>\<open>genchart.py\<close> works on Python ints (unbounded, modelled by
  \<^typ>\<open>int\<close> and \<^typ>\<open>nat\<close>) and on Python floats, which are IEEE-754 binary64 values.
  A float is modelled by its value: a rational number, one of the two infinities, or NaN.
  The sign of a zero is not kept: no comparison or arithmetic step of the program
  distinguishes \<^verbatim>\<open>-0.0\<close> from \<^verbatim>\<open>0.0\<close>.
\<close>

datatype pyfloat = Flt rat | PInf | NInf | NaN

datatype py_error = ZeroDivisionError | OverflowError | ValueError | StructError

text \<open>
  Rounding to the nearest double, ties to even. \<open>ilog2 x\<close> is the binary exponent of a
  positive \<open>x\<close>; below the normal range the exponent stays at \<open>-1022\<close> (subnormals).
\<close>

definition round_half_even :: "rat \<Rightarrow> int" where
  "round_half_even q =
     (let n = \<lfloor>q\<rfloor>; r = q - of_int n
      in if r < 1 / 2 then n else if 1 / 2 < r then n + 1 else if even n then n else n + 1)"

definition ilog2 :: "rat \<Rightarrow> int" where
  "ilog2 x = (if 1 \<le> x then bitlen \<lfloor>x\<rfloor> - 1 else - bitlen (\<lceil>1 / x\<rceil> - 1))"

definition round_double :: "rat \<Rightarrow> rat" where
  "round_double x =
     (if x = 0 then 0
      else let a = \<bar>x\<bar>; e = max (ilog2 a) (- 1022); q = 2 powi (e - 52);
               m = round_half_even (a / q)
           in sgn x * of_int m * q)"

definition fl :: "rat \<Rightarrow> pyfloat" where
  "fl x = (let y = round_double x
           in if 2 ^ 1024 \<le> \<bar>y\<bar> then (if 0 < x then PInf else NInf) else Flt y)"

fun isnan :: "pyfloat \<Rightarrow> bool" where
  "isnan NaN = True"
| "isnan _ = False"

fun isinf :: "pyfloat \<Rightarrow> bool" where
  "isinf PInf = True"
| "isinf NInf = True"
| "isinf _ = False"

fun fneg :: "pyfloat \<Rightarrow> pyfloat" where
  "fneg (Flt x) = Flt (- x)"
| "fneg PInf = NInf"
| "fneg NInf = PInf"
| "fneg NaN = NaN"

fun fabs :: "pyfloat \<Rightarrow> pyfloat" where
  "fabs (Flt x) = Flt \<bar>x\<bar>"
| "fabs PInf = PInf"
| "fabs NInf = PInf"
| "fabs NaN = NaN"

fun fadd :: "pyfloat \<Rightarrow> pyfloat \<Rightarrow> pyfloat" where
  "fadd (Flt x) (Flt y) = fl (x + y)"
| "fadd NaN _ = NaN"
| "fadd _ NaN = NaN"
| "fadd PInf NInf = NaN"
| "fadd NInf PInf = NaN"
| "fadd PInf _ = PInf"
| "fadd _ PInf = PInf"
| "fadd NInf _ = NInf"
| "fadd _ NInf = NInf"

definition fsub :: "pyfloat \<Rightarrow> pyfloat \<Rightarrow> pyfloat" where
  "fsub a b = fadd a (fneg b)"

fun fmul :: "pyfloat \<Rightarrow> pyfloat \<Rightarrow> pyfloat" where
  "fmul (Flt x) (Flt y) = fl (x * y)"
| "fmul NaN _ = NaN"
| "fmul _ NaN = NaN"
| "fmul (Flt x) PInf = (if x = 0 then NaN else if 0 < x then PInf else NInf)"
| "fmul (Flt x) NInf = (if x = 0 then NaN else if 0 < x then NInf else PInf)"
| "fmul PInf (Flt y) = (if y = 0 then NaN else if 0 < y then PInf else NInf)"
| "fmul NInf (Flt y) = (if y = 0 then NaN else if 0 < y then NInf else PInf)"
| "fmul PInf PInf = PInf"
| "fmul PInf NInf = NInf"
| "fmul NInf PInf = NInf"
| "fmul NInf NInf = PInf"

text \<open>Python's float division raises \<^verbatim>\<open>ZeroDivisionError\<close> on a zero divisor.\<close>

fun fdiv :: "pyfloat \<Rightarrow> pyfloat \<Rightarrow> py_error + pyfloat" where
  "fdiv a (Flt y) =
     (if y = 0 then Inl ZeroDivisionError
      else case a of
             Flt x \<Rightarrow> Inr (fl (x / y))
           | PInf \<Rightarrow> Inr (if 0 < y then PInf else NInf)
           | NInf \<Rightarrow> Inr (if 0 < y then NInf else PInf)
           | NaN \<Rightarrow> Inr NaN)"
| "fdiv (Flt x) PInf = Inr (Flt 0)"
| "fdiv (Flt x) NInf = Inr (Flt 0)"
| "fdiv _ _ = Inr NaN"

text \<open>Comparisons: every comparison with NaN is false.\<close>

fun flt :: "pyfloat \<Rightarrow> pyfloat \<Rightarrow> bool" where
  "flt NaN _ = False"
| "flt _ NaN = False"
| "flt (Flt x) (Flt y) = (x < y)"
| "flt PInf _ = False"
| "flt _ NInf = False"
| "flt _ _ = True"

fun py_eq :: "pyfloat \<Rightarrow> pyfloat \<Rightarrow> bool" where
  "py_eq NaN _ = False"
| "py_eq _ NaN = False"
| "py_eq a b = (a = b)"

text \<open>\<^verbatim>\<open>math.floor\<close> and \<^verbatim>\<open>math.ceil\<close> return a Python int and raise on a non-finite
  argument.\<close>

fun math_floor :: "pyfloat \<Rightarrow> py_error + int" where
  "math_floor (Flt x) = Inr \<lfloor>x\<rfloor>"
| "math_floor NaN = Inl ValueError"
| "math_floor _ = Inl OverflowError"

fun math_ceil :: "pyfloat \<Rightarrow> py_error + int" where
  "math_ceil (Flt x) = Inr \<lceil>x\<rceil>"
| "math_ceil NaN = Inl ValueError"
| "math_ceil _ = Inl OverflowError"

text \<open>
  \<open>floor_log10 x\<close> is \<^verbatim>\<open>math.floor(math.log10(x))\<close> for a positive finite \<open>x\<close>: the
  number of decimal digits of the integer part, less one, or the negated count of
  leading decimal places. The library's \<^verbatim>\<open>log10\<close> is taken to land on the right side of
  every integer.
\<close>

definition floor_log10 :: "rat \<Rightarrow> int" where
  "floor_log10 x =
     (if 1 \<le> x then int (floorlog 10 (nat \<lfloor>x\<rfloor>)) - 1
      else - int (floorlog 10 (nat (\<lceil>1 / x\<rceil> - 1))))"

section \<open>Reading big-endian fields\<close>

type_synonym byte = "8 word"

definition be_nat :: "byte list \<Rightarrow> nat" where
  "be_nat bs = foldl (\<lambda>acc b. 256 * acc + unat b) 0 bs"

text \<open>Python's \<^verbatim>\<open>data[a:b]\<close> for non-negative bounds: clipped to the buffer.\<close>

definition py_slice :: "'a list \<Rightarrow> nat \<Rightarrow> nat \<Rightarrow> 'a list" where
  "py_slice xs a b = take (b - a) (drop a xs)"

text \<open>The value of the binary64 bit pattern \<open>n\<close> (sign, 11 exponent bits, 52 fraction bits).\<close>

definition double_of_bits :: "nat \<Rightarrow> pyfloat" where
  "double_of_bits n =
     (let s = n div 2 ^ 63 mod 2; e = n div 2 ^ 52 mod 2048; m = n mod 2 ^ 52
      in if e = 2047 then (if m = 0 then (if s = 0 then PInf else NInf) else NaN)
         else let mag = (if e = 0 then of_nat m * 2 powi (- 1074)
                         else of_nat (2 ^ 52 + m) * 2 powi (int e - 1075))
              in Flt (if s = 0 then mag else - mag))"

text \<open>
  \<^verbatim>\<open>struct.unpack\<close> raises \<^verbatim>\<open>struct.error\<close> unless the buffer has exactly the size of
  the format; \<open>None\<close> stands for that exception.
\<close>

definition unpack_QIIQ :: "byte list \<Rightarrow> (nat \<times> nat \<times> nat \<times> nat) option" where
  "unpack_QIIQ bs =
     (if length bs = 24
      then Some (be_nat (py_slice bs 0 8), be_nat (py_slice bs 8 12),
                 be_nat (py_slice bs 12 16), be_nat (py_slice bs 16 24))
      else None)"

definition unpack_II :: "byte list \<Rightarrow> (nat \<times> nat) option" where
  "unpack_II bs =
     (if length bs = 8 then Some (be_nat (py_slice bs 0 4), be_nat (py_slice bs 4 8)) else None)"

definition unpack_I :: "byte list \<Rightarrow> nat option" where
  "unpack_I bs = (if length bs = 4 then Some (be_nat bs) else None)"

definition unpack_d :: "byte list \<Rightarrow> pyfloat" where
  "unpack_d bs = double_of_bits (be_nat bs)"

definition unpack_doubles :: "nat \<Rightarrow> byte list \<Rightarrow> pyfloat list option" where
  "unpack_doubles n bs =
     (if length bs = 8 * n
      then Some (map (\<lambda>k. unpack_d (py_slice bs (8 * k) (8 * k + 8))) [0..<n])
      else None)"

section \<open>The format parser: \<^verbatim>\<open>parse_rrd4j_file\<close>\<close>

record archive =
  steps :: nat
  rows :: nat
  pointer :: nat
  vals :: "pyfloat list"

type_synonym sample = "int \<times> pyfloat"

text \<open>The circular buffer is rotated so that the oldest value comes first.\<close>

definition reorder :: "nat \<Rightarrow> 'a list \<Rightarrow> 'a list" where
  "reorder p vs = (if 0 < p \<and> p < length vs then drop p vs @ take p vs else vs)"

text \<open>
  One archive: definition (the two counts at bytes 48..56 of it), the state of each
  datasource (16 bytes each), the robin of the first datasource (pointer and values),
  then the robins of the other datasources, skipped. The result carries the offset
  after the archive.
\<close>

definition read_archive :: "byte list \<Rightarrow> nat \<Rightarrow> nat \<Rightarrow> (archive \<times> nat) option" where
  "read_archive data ds_count offset =
     (case unpack_II (py_slice data (offset + 48) (offset + 56)) of
        None \<Rightarrow> None
      | Some (arc_steps, arc_rows) \<Rightarrow>
          let offset1 = offset + 56 + ds_count * 16
          in case unpack_I (py_slice data offset1 (offset1 + 4)) of
               None \<Rightarrow> None
             | Some ptr \<Rightarrow>
                 let offset2 = offset1 + 4; values_size = arc_rows * 8
                 in case unpack_doubles arc_rows (py_slice data offset2 (offset2 + values_size)) of
                      None \<Rightarrow> None
                    | Some values \<Rightarrow>
                        Some (\<lparr>steps = arc_steps, rows = arc_rows, pointer = ptr,
                                vals = reorder ptr values\<rparr>,
                              offset2 + values_size + (ds_count - 1) * (4 + arc_rows * 8)))"

fun read_archives :: "byte list \<Rightarrow> nat \<Rightarrow> nat \<Rightarrow> nat \<Rightarrow> archive list option" where
  "read_archives data ds_count offset 0 = Some []"
| "read_archives data ds_count offset (Suc n) =
     (case read_archive data ds_count offset of
        None \<Rightarrow> None
      | Some (a, offset') \<Rightarrow>
          (case read_archives data ds_count offset' n of
             None \<Rightarrow> None
           | Some rest \<Rightarrow> Some (a # rest)))"

text \<open>The period table, \<^verbatim>\<open>period_duration.get(period, 24 * 3600)\<close>.\<close>

definition period_duration :: "string \<Rightarrow> nat" where
  "period_duration period =
     (if period = ''h'' then 3600
      else if period = ''D'' then 24 * 3600
      else if period = ''W'' then 7 * 24 * 3600
      else if period = ''M'' then 30 * 24 * 3600
      else if period = ''Y'' then 365 * 24 * 3600
      else 24 * 3600)"

text \<open>\<^verbatim>\<open>required_duration * 0.8\<close>, a float product.\<close>

definition coverage_threshold :: "nat \<Rightarrow> pyfloat" where
  "coverage_threshold required_duration = fmul (fl (of_nat required_duration)) (fl (8 / 10))"

text \<open>The comparison \<^verbatim>\<open>n >= x\<close> of an int with a float is exact in Python.\<close>

definition int_ge_float :: "int \<Rightarrow> pyfloat \<Rightarrow> bool" where
  "int_ge_float n x = (case x of Flt y \<Rightarrow> y \<le> of_int n | NInf \<Rightarrow> True | _ \<Rightarrow> False)"

fun first_covering :: "nat \<Rightarrow> pyfloat \<Rightarrow> archive list \<Rightarrow> archive option" where
  "first_covering step thr [] = None"
| "first_covering step thr (arc # arcs) =
     (let arc_step = step * steps arc; arc_duration = rows arc * arc_step
      in if int_ge_float (int arc_duration) thr then Some arc
         else first_covering step thr arcs)"

text \<open>Python's \<^verbatim>\<open>max(xs, key=f)\<close>: the first element of greatest key; \<^verbatim>\<open>ValueError\<close>
  (here \<open>None\<close>) on an empty list.\<close>

fun max_by :: "('a \<Rightarrow> nat) \<Rightarrow> 'a list \<Rightarrow> 'a option" where
  "max_by key [] = None"
| "max_by key (x # xs) = Some (foldl (\<lambda>best a. if key best < key a then a else best) x xs)"

definition select_archive :: "nat \<Rightarrow> string \<Rightarrow> archive list \<Rightarrow> archive option" where
  "select_archive step period archive_data =
     (case first_covering step (coverage_threshold (period_duration period)) archive_data of
        Some arc \<Rightarrow> Some arc
      | None \<Rightarrow> max_by (\<lambda>a. rows a * step * steps a) archive_data)"

text \<open>The loop over \<^verbatim>\<open>enumerate(values)\<close>; \<open>n\<close> is \<^verbatim>\<open>len(values)\<close>, \<open>i\<close> the index.\<close>

fun build_pairs :: "int \<Rightarrow> int \<Rightarrow> nat \<Rightarrow> nat \<Rightarrow> pyfloat list \<Rightarrow> sample list" where
  "build_pairs last_update arc_step n i [] = []"
| "build_pairs last_update arc_step n i (val # rest) =
     (if \<not> isnan val \<and> \<not> isinf val
      then (last_update - (int n - int i - 1) * arc_step, val)
             # build_pairs last_update arc_step n (Suc i) rest
      else build_pairs last_update arc_step n (Suc i) rest)"

text \<open>\<^verbatim>\<open>int(x)\<close> truncates towards zero.\<close>

definition py_trunc :: "rat \<Rightarrow> int" where
  "py_trunc x = (if 0 \<le> x then \<lfloor>x\<rfloor> else \<lceil>x\<rceil>)"

text \<open>
  The header with its two range checks. \<open>now\<close> is the reading of \<^verbatim>\<open>time.time()\<close>.
\<close>

definition parse_header :: "byte list \<Rightarrow> rat \<Rightarrow> (nat \<times> nat \<times> nat \<times> int) option" where
  "parse_header data now =
     (case unpack_QIIQ (py_slice data 40 64) of
        None \<Rightarrow> None
      | Some (step, ds_count, arc_count, last_update) \<Rightarrow>
          Some (if step < 1 \<or> 86400 < step then 60 else step, ds_count, arc_count,
                if last_update < 1577836800 \<or> 2000000000 < last_update
                then py_trunc now else int last_update))"

text \<open>
  The whole parser. Every exception is caught by the function and turned into
  \<^verbatim>\<open>None\<close>, as is an empty list of pairs.
\<close>

definition parse_rrd4j_file :: "byte list \<Rightarrow> string \<Rightarrow> rat \<Rightarrow> sample list option" where
  "parse_rrd4j_file data period now =
     (case parse_header data now of
        None \<Rightarrow> None
      | Some (step, ds_count, arc_count, last_update) \<Rightarrow>
          (case read_archives data ds_count (64 + ds_count * 128) arc_count of
             None \<Rightarrow> None
           | Some archive_data \<Rightarrow>
               (case select_archive step period archive_data of
                  None \<Rightarrow> None
                | Some selected \<Rightarrow>
                    let arc_step = step * steps selected;
                        values = vals selected;
                        pairs = build_pairs last_update (int arc_step) (length values) 0 values
                    in if pairs = [] then None else Some pairs)))"

section \<open>The heuristic scanner: \<^verbatim>\<open>parse_rrd4j_values_only\<close>\<close>

definition is_valid_sensor_value :: "pyfloat \<Rightarrow> bool" where
  "is_valid_sensor_value val =
     (if isnan val \<or> isinf val then False
      else flt (fl (1 / 10000)) (fabs val) \<and> flt (fabs val) (Flt 10000))"

text \<open>The offsets of \<^verbatim>\<open>range(200, len(data) - 8, 8)\<close> for a buffer of \<open>n\<close> bytes.\<close>

definition scan_offsets :: "nat \<Rightarrow> nat list" where
  "scan_offsets n = map (\<lambda>j. 200 + 8 * j) [0..<(n - 201) div 8]"

text \<open>
  One turn of the scanning loop on the pair of \<^verbatim>\<open>blocks\<close> and \<^verbatim>\<open>current_block\<close>
  (\<^verbatim>\<open>current_start\<close> is written but never read).
\<close>

fun scan_step :: "pyfloat list list \<times> pyfloat list \<Rightarrow> pyfloat \<Rightarrow> pyfloat list list \<times> pyfloat list" where
  "scan_step (blocks, current_block) val =
     (if is_valid_sensor_value val then (blocks, current_block @ [val])
      else (if 30 \<le> length current_block then blocks @ [current_block] else blocks, []))"

definition scan_blocks :: "pyfloat list \<Rightarrow> pyfloat list list" where
  "scan_blocks vs =
     (case foldl scan_step ([], []) vs of
        (blocks, current_block) \<Rightarrow>
          if 30 \<le> length current_block then blocks @ [current_block] else blocks)"

text \<open>Every window read by the loop has its eight bytes, so \<^verbatim>\<open>struct.unpack\<close> cannot fail.\<close>

definition scanned_values :: "byte list \<Rightarrow> pyfloat list" where
  "scanned_values data =
     map (\<lambda>i. unpack_d (py_slice data i (i + 8))) (scan_offsets (length data))"

definition synthetic_pairs :: "rat \<Rightarrow> pyfloat list \<Rightarrow> (rat \<times> pyfloat) list" where
  "synthetic_pairs now values =
     map (\<lambda>(i, val). (round_double (now - of_nat ((length values - i - 1) * 60)), val))
       (enumerate 0 values)"

definition parse_rrd4j_values_only :: "byte list \<Rightarrow> rat \<Rightarrow> (rat \<times> pyfloat) list option" where
  "parse_rrd4j_values_only data now =
     (case max_by length (scan_blocks (scanned_values data)) of
        None \<Rightarrow> None
      | Some values \<Rightarrow> Some (synthetic_pairs now values))"

section \<open>The resampler: \<^verbatim>\<open>process_data\<close>\<close>

definition period_seconds :: "string \<Rightarrow> nat" where
  "period_seconds period =
     (if period = ''h'' then 3600
      else if period = ''D'' then 24 * 3600
      else if period = ''W'' then 7 * 24 * 3600
      else if period = ''M'' then 30 * 24 * 3600
      else if period = ''Y'' then 365 * 24 * 3600
      else 24 * 3600)"

definition fallback_points :: "string \<Rightarrow> nat" where
  "fallback_points period =
     (if period = ''h'' then 60
      else if period = ''D'' then 1440
      else if period = ''W'' then 2016
      else if period = ''M'' then 4320
      else if period = ''Y'' then 8760
      else 1440)"

text \<open>The two updates of \<^verbatim>\<open>data_min\<close> and \<^verbatim>\<open>data_max\<close> for one value.\<close>

fun track :: "pyfloat \<times> pyfloat \<Rightarrow> pyfloat \<Rightarrow> pyfloat \<times> pyfloat" where
  "track (data_min, data_max) val =
     (if flt val data_min then val else data_min, if flt data_max val then val else data_max)"

definition track_all :: "sample list \<Rightarrow> pyfloat \<times> pyfloat" where
  "track_all xs = foldl track (PInf, NInf) (map snd xs)"

definition window_filter :: "sample list \<Rightarrow> string \<Rightarrow> rat \<Rightarrow> sample list" where
  "window_filter data period now =
     (let cutoff = round_double (now - of_nat (period_seconds period))
      in filter (\<lambda>(ts, val). cutoff \<le> of_int ts) data)"

text \<open>The list \<^verbatim>\<open>filtered\<close> when the downsampling test is reached; \<^verbatim>\<open>data[-n:]\<close> is the
  last \<open>n\<close> samples, all of them when there are fewer.\<close>

definition filtered_samples :: "sample list \<Rightarrow> string \<Rightarrow> rat \<Rightarrow> sample list" where
  "filtered_samples data period now =
     (let filtered = window_filter data period now
      in if filtered = [] \<and> data \<noteq> []
         then drop (length data - fallback_points period) data
         else filtered)"

text \<open>\<^verbatim>\<open>int(i * step)\<close>: the int is converted to a float, the product is rounded, and
  the result is truncated.\<close>

definition downsample_index :: "rat \<Rightarrow> nat \<Rightarrow> int" where
  "downsample_index step i = py_trunc (round_double (round_double (of_nat i) * step))"

text \<open>
  \<^verbatim>\<open>result[-1] != filtered[-1]\<close> compares two tuples item by item; an item that is the
  same object on both sides counts as equal, also a NaN. Two positions of the list hold
  different float objects (\<^verbatim>\<open>struct.unpack\<close> makes a new one for each value).
\<close>

definition sample_ne :: "sample list \<Rightarrow> nat \<Rightarrow> nat \<Rightarrow> bool" where
  "sample_ne xs j k =
     (j \<noteq> k \<and> (fst (xs ! j) \<noteq> fst (xs ! k) \<or> \<not> py_eq (snd (xs ! j)) (snd (xs ! k))))"

text \<open>
  The indices picked by the loop over \<^verbatim>\<open>range(max_points)\<close>. The loop body runs only
  for a positive \<open>max_points\<close> below the length, where the step and so every index is
  positive or zero.
\<close>

definition picked_indices :: "nat \<Rightarrow> int \<Rightarrow> nat list" where
  "picked_indices n max_points =
     (let step = round_double (of_nat n / of_int max_points)
      in map nat (filter (\<lambda>idx. idx < int n)
           (map (downsample_index step) [0..<nat max_points])))"

definition downsample :: "sample list \<Rightarrow> int \<Rightarrow> py_error + sample list" where
  "downsample filtered max_points =
     (if max_points = 0 then Inl ZeroDivisionError
      else let picked = picked_indices (length filtered) max_points;
               result = map (\<lambda>idx. filtered ! idx) picked
           in Inr (if result \<noteq> [] \<and> filtered \<noteq> []
                      \<and> sample_ne filtered (last picked) (length filtered - 1)
                   then result @ [last filtered] else result))"

text \<open>The step of the axis, \<^verbatim>\<open>10 ** math.floor(math.log10(data_range)) / 10\<close>, not below
  \<^verbatim>\<open>0.01\<close>. A power of ten with a negative exponent is a float in Python, the others
  are ints, divided by \<^verbatim>\<open>10\<close> with one rounding.\<close>

definition nice_step :: "pyfloat \<Rightarrow> py_error + pyfloat" where
  "nice_step data_range =
     (case data_range of
        Flt r \<Rightarrow>
          (let k = floor_log10 r
           in case (if 0 \<le> k then Inr (fl (10 ^ nat k / 10))
                    else fdiv (fl (1 / 10 ^ nat (- k))) (Flt 10)) of
                Inl e \<Rightarrow> Inl e
              | Inr step \<Rightarrow> Inr (if flt step (fl (1 / 100)) then fl (1 / 100) else step))
      | _ \<Rightarrow> Inl OverflowError)"

definition snap_down :: "pyfloat \<Rightarrow> pyfloat \<Rightarrow> py_error + pyfloat" where
  "snap_down y step =
     (case fdiv y step of
        Inl e \<Rightarrow> Inl e
      | Inr q \<Rightarrow> (case math_floor q of Inl e \<Rightarrow> Inl e | Inr n \<Rightarrow> Inr (fmul (fl (of_int n)) step)))"

definition snap_up :: "pyfloat \<Rightarrow> pyfloat \<Rightarrow> py_error + pyfloat" where
  "snap_up y step =
     (case fdiv y step of
        Inl e \<Rightarrow> Inl e
      | Inr q \<Rightarrow> (case math_ceil q of Inl e \<Rightarrow> Inl e | Inr n \<Rightarrow> Inr (fmul (fl (of_int n)) step)))"

definition widen :: "pyfloat \<times> pyfloat \<Rightarrow> pyfloat \<times> pyfloat" where
  "widen r = (case r of (y_min, y_max) \<Rightarrow>
     if py_eq y_min y_max then (fsub y_min (Flt 1), fadd y_max (Flt 1)) else (y_min, y_max))"

definition y_range :: "pyfloat \<times> pyfloat \<Rightarrow> py_error + pyfloat \<times> pyfloat" where
  "y_range mm = (case mm of (data_min, data_max) \<Rightarrow>
     if py_eq data_min PInf then Inr (Flt 0, Flt 100)
     else
       let d = fsub data_max data_min;
           data_range = (if py_eq d (Flt 0)
                         then (if \<not> py_eq data_max (Flt 0)
                               then fmul (fabs data_max) (fl (1 / 10)) else Flt 1)
                         else d);
           padding = fmul data_range (fl (15 / 100));
           y_min = fsub data_min padding;
           y_max = fadd data_max padding
       in if flt (Flt 0) data_range
          then (case nice_step data_range of
                  Inl e \<Rightarrow> Inl e
                | Inr step \<Rightarrow>
                    (case snap_down y_min step of
                       Inl e \<Rightarrow> Inl e
                     | Inr lo \<Rightarrow>
                         (case snap_up y_max step of
                            Inl e \<Rightarrow> Inl e
                          | Inr hi \<Rightarrow> Inr (widen (lo, hi)))))
          else Inr (widen (y_min, y_max)))"

definition process_data ::
  "sample list \<Rightarrow> string \<Rightarrow> rat \<Rightarrow> int \<Rightarrow> py_error + sample list \<times> pyfloat \<times> pyfloat" where
  "process_data data period now max_points =
     (if data = [] then Inr ([], Flt 0, Flt 100)
      else
        let filtered = filtered_samples data period now
        in case (if max_points < int (length filtered) then downsample filtered max_points
                 else Inr filtered) of
             Inl e \<Rightarrow> Inl e
           | Inr result \<Rightarrow>
               (case y_range (track_all result) of
                  Inl e \<Rightarrow> Inl e
                | Inr (y_min, y_max) \<Rightarrow> Inr (result, y_min, y_max)))"

section \<open>The label generator: \<^verbatim>\<open>generate_x_labels\<close>\<close>

text \<open>
  The text of a label is \<^verbatim>\<open>strftime(fmt)\<close> of the local time at a timestamp; the model
  keeps the format and the timestamp. Timestamps are taken in the range that
  \<^verbatim>\<open>datetime.fromtimestamp\<close> accepts.
\<close>

record label =
  text_fmt :: string
  text_ts :: rat
  pos :: rat

text \<open>
  The interval, the format, and whether the interval is a float (only the quotient
  \<^verbatim>\<open>duration / 10\<close> of the last branch is).
\<close>

definition label_interval :: "string \<Rightarrow> int \<Rightarrow> rat \<times> string \<times> bool" where
  "label_interval period duration =
     (if period = ''h'' then (if duration < 3600 then 600 else 900, ''%H:%M'', False)
      else if period = ''D'' then (2 * 3600, ''%H:%M'', False)
      else if period = ''W'' then (24 * 3600, ''%a'', False)
      else if period = ''M'' then (5 * 24 * 3600, ''%b %d'', False)
      else if period = ''Y'' then (30 * 24 * 3600, ''%b'', False)
      else (round_double (of_int duration / 10), ''%H:%M'', True))"

definition label_pos :: "bool \<Rightarrow> int \<Rightarrow> int \<Rightarrow> rat \<Rightarrow> rat" where
  "label_pos is_float start_ts duration current =
     (if 0 < duration
      then let diff = (if is_float then round_double (current - of_int start_ts)
                       else current - of_int start_ts)
           in round_double (round_double (diff / of_int duration) * 100)
      else 50)"

text \<open>The \<^verbatim>\<open>while current <= end_ts\<close> loop; \<open>None\<close> when it does not end.\<close>

partial_function (option) label_loop ::
  "string \<Rightarrow> bool \<Rightarrow> int \<Rightarrow> int \<Rightarrow> rat \<Rightarrow> rat \<Rightarrow> label list \<Rightarrow> label list option" where
  "label_loop fmt is_float start_ts end_ts interval current labels =
     (if current \<le> of_int end_ts
      then label_loop fmt is_float start_ts end_ts interval
             (if is_float then round_double (current + interval) else current + interval)
             (labels @ [\<lparr>text_fmt = fmt, text_ts = current,
                          pos = label_pos is_float start_ts (end_ts - start_ts) current\<rparr>])
      else Some labels)"

definition generate_x_labels :: "sample list \<Rightarrow> string \<Rightarrow> label list option" where
  "generate_x_labels data period =
     (if data = [] then Some []
      else
        let start_ts = fst (hd data); end_ts = fst (last data);
            duration = end_ts - start_ts
        in case label_interval period duration of
             (interval, fmt, is_float) \<Rightarrow>
               (case label_loop fmt is_float start_ts end_ts interval (of_int start_ts) [] of
                  None \<Rightarrow> None
                | Some labels \<Rightarrow>
                    Some (if labels \<noteq> [] \<and> pos (last labels) < 95
                          then labels @ [\<lparr>text_fmt = fmt, text_ts = of_int end_ts, pos = 100\<rparr>]
                          else labels)))"

section \<open>The pipeline of \<^verbatim>\<open>main\<close>\<close>

text \<open>
  The part of \<^verbatim>\<open>main\<close> from the parse to the two error exits. \<open>now\<close> and \<open>now'\<close> are the
  clock readings of the parser and of the resampler.
\<close>

datatype main_result =
  CouldNotParse
| NoDataForPeriod
| Raised py_error
| Processed "sample list" pyfloat pyfloat

definition main :: "byte list \<Rightarrow> string \<Rightarrow> rat \<Rightarrow> rat \<Rightarrow> main_result" where
  "main rrd period now now' =
     (case parse_rrd4j_file rrd period now of
        None \<Rightarrow> CouldNotParse
      | Some data \<Rightarrow>
          if data = [] then CouldNotParse
          else (case process_data data period now' 500 of
                  Inl e \<Rightarrow> Raised e
                | Inr (data', y_min, y_max) \<Rightarrow>
                    if data' = [] then NoDataForPeriod else Processed data' y_min y_max))"

section \<open>Sample inputs\<close>

text \<open>An archive of three rows with write pointer 1, holding 3.0, 1.0, 2.0 in file order.\<close>

definition one_archive :: "byte list" where
  "one_archive =
     replicate 48 0 @ [0,0,0,1,0,0,0,3] @ [0,0,0,1] @ [0x40,8,0,0,0,0,0,0]
     @ [0x3F,0xF0,0,0,0,0,0,0] @ [0x40,0,0,0,0,0,0,0]"

text \<open>A file of 64 zero bytes: a header and nothing else.\<close>

definition header_only :: "byte list" where
  "header_only =
     replicate 64 0"

text \<open>A file with one datasource and one archive of five rows, step 60, one step per row,
  last update 1600000300, values 1.0 to 5.0, write pointer 0.\<close>

definition five_rows :: "byte list" where
  "five_rows =
     replicate 40 0 @ [0,0,0,0,0,0,0,0x3C] @ [0,0,0,1,0,0,0,1]
     @ [0,0,0,0,0x5F,0x5E,0x11,0x2C] @ replicate 128 0 @ replicate 48 0
     @ [0,0,0,1,0,0,0,5] @ replicate 16 0 @ [0,0,0,0] @ [0x3F,0xF0,0,0,0,0,0,0]
     @ [0x40,0,0,0,0,0,0,0] @ [0x40,8,0,0,0,0,0,0] @ [0x40,0x10,0,0,0,0,0,0]
     @ [0x40,0x14,0,0,0,0,0,0]"

text \<open>The same file with NaN as the newest value.\<close>

definition five_rows_nan_last :: "byte list" where
  "five_rows_nan_last =
     replicate 40 0 @ [0,0,0,0,0,0,0,0x3C] @ [0,0,0,1,0,0,0,1]
     @ [0,0,0,0,0x5F,0x5E,0x11,0x2C] @ replicate 128 0 @ replicate 48 0
     @ [0,0,0,1,0,0,0,5] @ replicate 16 0 @ [0,0,0,0] @ [0x3F,0xF0,0,0,0,0,0,0]
     @ [0x40,0,0,0,0,0,0,0] @ [0x40,8,0,0,0,0,0,0] @ [0x40,0x10,0,0,0,0,0,0]
     @ [0x7F,0xF8,0,0,0,0,0,0]"

text \<open>The file \<open>five_rows\<close> with last update 1000300 in its header.\<close>

definition five_rows_old :: "byte list" where
  "five_rows_old =
     replicate 40 0 @ [0,0,0,0,0,0,0,0x3C] @ [0,0,0,1,0,0,0,1]
     @ [0,0,0,0,0,0x0F,0x43,0x6C] @ replicate 128 0 @ replicate 48 0
     @ [0,0,0,1,0,0,0,5] @ replicate 16 0 @ [0,0,0,0] @ [0x3F,0xF0,0,0,0,0,0,0]
     @ [0x40,0,0,0,0,0,0,0] @ [0x40,8,0,0,0,0,0,0] @ [0x40,0x10,0,0,0,0,0,0]
     @ [0x40,0x14,0,0,0,0,0,0]"

section \<open>Properties\<close>

subsection \<open>Decoding\<close>

lemma length_unpack_doubles: "unpack_doubles n bs = Some v \<Longrightarrow> length v = n"
  by (auto simp: unpack_doubles_def split: if_splits)

lemma be_nat_zeros: "foldl (\<lambda>acc b. 256 * acc + unat b) 0 (replicate n (0 :: byte)) = 0"
  by (induction n) simp_all

lemma unpack_d_1: "unpack_d [0x3F,0xF0,0,0,0,0,0,0] = Flt 1"
  by (simp add: unpack_d_def be_nat_def double_of_bits_def)

lemma unpack_d_2: "unpack_d [0x40,0,0,0,0,0,0,0] = Flt 2"
  by (simp add: unpack_d_def be_nat_def double_of_bits_def)

lemma unpack_d_3: "unpack_d [0x40,0x08,0,0,0,0,0,0] = Flt 3"
  by (simp add: unpack_d_def be_nat_def double_of_bits_def)

lemma read_one_archive:
  "read_archive one_archive 0 0 =
     Some (\<lparr>steps = 1, rows = 3, pointer = 1, vals = [Flt 1, Flt 2, Flt 3]\<rparr>, 84)"
  by (simp add: read_archive_def one_archive_def py_slice_def unpack_II_def unpack_I_def
        unpack_doubles_def be_nat_def be_nat_zeros reorder_def upt_rec
        unpack_d_1 unpack_d_2 unpack_d_3)

subsection \<open>Reordering of the circular buffer\<close>

text \<open>
  C2. Every archive that the parser reads carries the values of its robin, a list \<open>v\<close> of
  length \<open>rows\<close>, in the order \<open>v[p:] + v[:p]\<close> when the write pointer \<open>p\<close> satisfies
  \<open>0 < p < rows\<close>, and exactly as read otherwise.
\<close>

theorem reorder_chronological:
  assumes "read_archive data ds_count offset = Some (a, offset')"
  shows "\<exists>v. unpack_doubles (rows a)
               (py_slice data (offset + 60 + ds_count * 16)
                  (offset + 60 + ds_count * 16 + rows a * 8)) = Some v
             \<and> length v = rows a
             \<and> vals a = (if 0 < pointer a \<and> pointer a < rows a
                         then drop (pointer a) v @ take (pointer a) v else v)"
proof -
  from assms obtain st rw p v where
    u: "unpack_doubles rw (py_slice data (offset + 56 + ds_count * 16 + 4)
          (offset + 56 + ds_count * 16 + 4 + rw * 8)) = Some v"
    and a: "a = \<lparr>steps = st, rows = rw, pointer = p, vals = reorder p v\<rparr>"
    by (auto simp: read_archive_def Let_def split: option.splits prod.splits)
  have l: "length v = rw"
    using u by (rule length_unpack_doubles)
  have e: "offset + 60 + ds_count * 16 = offset + 56 + ds_count * 16 + 4"
    by simp
  show ?thesis
    unfolding e using u l a by (simp add: reorder_def)
qed

theorem reorder_chronological_witness:
  "read_archive one_archive 0 0
     = Some (\<lparr>steps = 1, rows = 3, pointer = 1, vals = [Flt 1, Flt 2, Flt 3]\<rparr>, 84)
   \<and> (\<exists>v. length v = 3 \<and> [Flt 1, Flt 2, Flt 3] = drop 1 v @ take 1 v)"
  using reorder_chronological [OF read_one_archive] read_one_archive by auto

subsection \<open>A file without archives\<close>

text \<open>
  C10. When the header of a file gives an archive count of zero, the parser returns no
  result: the list of archives is empty, no archive covers the period, and the fallback
  to the archive of greatest coverage fails on the empty list.
\<close>

theorem no_archives_no_result:
  assumes "parse_header data now = Some (step, ds_count, 0, last_update)"
  shows "parse_rrd4j_file data period now = None"
  using assms by (simp add: parse_rrd4j_file_def select_archive_def)

lemma parse_header_only: "parse_header header_only 1700000000 = Some (60, 0, 0, 1700000000)"
  by (simp add: parse_header_def header_only_def py_slice_def unpack_QIIQ_def be_nat_def
        be_nat_zeros py_trunc_def)

theorem no_archives_no_result_witness:
  "parse_header header_only 1700000000 = Some (60, 0, 0, 1700000000)
   \<and> parse_rrd4j_file header_only ''D'' 1700000000 = None"
  using no_archives_no_result [OF parse_header_only] parse_header_only by simp

subsection \<open>Rounding of the constants\<close>

lemma fl_finite: "round_double x = y \<Longrightarrow> \<bar>y\<bar> < 2 ^ 1024 \<Longrightarrow> fl x = Flt y"
  by (simp add: fl_def)

lemma rd_4_5: "round_double (4 / 5) = 3602879701896397 / 4503599627370496"
  by code_simp

lemma rd_86400: "round_double 86400 = 86400"
  by code_simp

lemma rd_day: "round_double (2431943798780067975 / 35184372088832) = 69120"
  by code_simp

lemma day_threshold: "fmul (fl 86400) (fl (4 / 5)) = Flt 69120"
  by (simp add: fl_finite [OF rd_4_5] fl_finite [OF rd_86400] fl_finite [OF rd_day])

lemma coverage_threshold_day: "coverage_threshold (period_duration ''D'') = Flt 69120"
  by (simp add: coverage_threshold_def period_duration_def day_threshold)

subsection \<open>Samples of the selected archive\<close>

lemma unpack_d_4: "unpack_d [0x40,0x10,0,0,0,0,0,0] = Flt 4"
  by (simp add: unpack_d_def be_nat_def double_of_bits_def)

lemma unpack_d_5: "unpack_d [0x40,0x14,0,0,0,0,0,0] = Flt 5"
  by (simp add: unpack_d_def be_nat_def double_of_bits_def)

lemma unpack_d_nan: "unpack_d [0x7F,0xF8,0,0,0,0,0,0] = NaN"
  by (simp add: unpack_d_def be_nat_def double_of_bits_def)

lemmas unpack_d_values = unpack_d_1 unpack_d_2 unpack_d_3 unpack_d_4 unpack_d_5 unpack_d_nan

lemmas read_defs = py_slice_def unpack_QIIQ_def unpack_II_def unpack_I_def unpack_doubles_def
  be_nat_def be_nat_zeros reorder_def py_trunc_def upt_rec

lemma build_pairs_enumerate:
  "build_pairs L S n i vs =
     map (\<lambda>(j, v). (L - (int n - int j - 1) * S, v))
       (filter (\<lambda>(j, v). \<not> isnan v \<and> \<not> isinf v) (enumerate i vs))"
  by (induction vs arbitrary: i) simp_all

lemma enumerate_nth: "enumerate 0 vs = map (\<lambda>i. (i, vs ! i)) [0..<length vs]"
  by (rule nth_equalityI) (simp_all add: nth_enumerate_eq)

lemma build_pairs_index:
  "build_pairs L S (length vs) 0 vs =
     map (\<lambda>i. (L - (int (length vs) - int i - 1) * S, vs ! i))
       (filter (\<lambda>i. \<not> isnan (vs ! i) \<and> \<not> isinf (vs ! i)) [0..<length vs])"
  by (simp add: build_pairs_enumerate enumerate_nth filter_map o_def)

lemma header_five_rows: "parse_header five_rows 1700000000 = Some (60, 1, 1, 1600000300)"
  by (simp add: parse_header_def five_rows_def read_defs)

lemma archives_five_rows:
  "read_archives five_rows 1 (64 + 1 * 128) 1 =
     Some [\<lparr>steps = 1, rows = 5, pointer = 0, vals = [Flt 1, Flt 2, Flt 3, Flt 4, Flt 5]\<rparr>]"
  by (simp add: read_archive_def five_rows_def read_defs unpack_d_values)

lemma select_singleton: "select_archive step period [a] = Some a"
proof (cases "first_covering step (coverage_threshold (period_duration period)) [a]")
  case None
  then show ?thesis by (simp add: select_archive_def)
next
  case (Some b)
  then have "b = a" by (simp add: Let_def split: if_splits)
  with Some show ?thesis by (simp add: select_archive_def)
qed

text \<open>
  C3 (amended). Let \<open>L\<close> be the last update of the header after its range check (the
  header's value when it lies in 1577836800..2000000000, the clock of the parse
  otherwise), \<open>N\<close> the number of values of the selected archive and \<open>S\<close> the header's
  step times the archive's steps. The parser returns exactly the pairs
  \<open>(L - (N - i - 1) * S, v\<^sub>i)\<close> of the finite values, in the order of the indices and
  without renumbering; when the newest value is finite the last pair has timestamp \<open>L\<close>;
  when no value is finite the parser returns no result.
\<close>

theorem parser_samples:
  assumes h: "parse_header data now = Some (step, ds_count, arc_count, L)"
    and r: "read_archives data ds_count (64 + ds_count * 128) arc_count = Some archive_data"
    and s: "select_archive step period archive_data = Some sel"
  shows "(case unpack_QIIQ (py_slice data 40 64) of
            Some (st, dc, ac, lu) \<Rightarrow>
              L = (if lu < 1577836800 \<or> 2000000000 < lu then py_trunc now else int lu)
          | None \<Rightarrow> False)
       \<and> parse_rrd4j_file data period now =
           (let vs = vals sel;
                pairs = map (\<lambda>i. (L - (int (length vs) - int i - 1) * int (step * steps sel), vs ! i))
                          (filter (\<lambda>i. \<not> isnan (vs ! i) \<and> \<not> isinf (vs ! i)) [0..<length vs])
            in if pairs = [] then None else Some pairs)
       \<and> (vals sel \<noteq> [] \<and> \<not> isnan (last (vals sel)) \<and> \<not> isinf (last (vals sel)) \<longrightarrow>
            (\<exists>pairs. parse_rrd4j_file data period now = Some pairs \<and> fst (last pairs) = L))
       \<and> ((\<forall>v \<in> set (vals sel). isnan v \<or> isinf v) \<longrightarrow>
            parse_rrd4j_file data period now = None)"
proof -
  let ?vs = "vals sel"
  let ?S = "int (step * steps sel)"
  let ?ok = "\<lambda>i. \<not> isnan (?vs ! i) \<and> \<not> isinf (?vs ! i)"
  let ?pairs = "map (\<lambda>i. (L - (int (length ?vs) - int i - 1) * ?S, ?vs ! i))
                  (filter ?ok [0..<length ?vs])"
  have p: "parse_rrd4j_file data period now = (if ?pairs = [] then None else Some ?pairs)"
    using h r s by (simp add: parse_rrd4j_file_def build_pairs_index Let_def)
  have hd: "(case unpack_QIIQ (py_slice data 40 64) of
            Some (st, dc, ac, lu) \<Rightarrow>
              L = (if lu < 1577836800 \<or> 2000000000 < lu then py_trunc now else int lu)
          | None \<Rightarrow> False)"
    using h by (auto simp: parse_header_def split: option.splits)
  have newest: "\<exists>pairs. parse_rrd4j_file data period now = Some pairs \<and> fst (last pairs) = L"
    if ne: "?vs \<noteq> []" and fin: "\<not> isnan (last ?vs)" "\<not> isinf (last ?vs)"
  proof -
    from ne obtain n where n: "length ?vs = Suc n"
      by (cases ?vs) auto
    have ok: "?ok n"
      using fin ne n by (simp add: last_conv_nth)
    have f: "filter ?ok [0..<length ?vs] = filter ?ok [0..<n] @ [n]"
      using ok n by simp
    have "?pairs \<noteq> []" and "fst (last ?pairs) = L"
      unfolding f using n by simp_all
    with p show ?thesis by auto
  qed
  have none: "parse_rrd4j_file data period now = None"
    if "\<forall>v \<in> set ?vs. isnan v \<or> isinf v"
  proof -
    have "filter ?ok [0..<length ?vs] = []"
      using that by (auto simp: filter_empty_conv)
    then show ?thesis using p by simp
  qed
  show ?thesis
    using hd p newest none by (simp add: Let_def)
qed
theorem parser_samples_witness:
  "parse_rrd4j_file five_rows ''D'' 1700000000 =
     Some [(1600000060, Flt 1), (1600000120, Flt 2), (1600000180, Flt 3),
           (1600000240, Flt 4), (1600000300, Flt 5)]"
proof -
  have u: "[0..<5] = [0, 1, 2, 3, 4 :: nat]"
    by (simp add: upt_rec)
  from parser_samples [OF header_five_rows archives_five_rows select_singleton]
  show ?thesis by (simp add: u)
qed

lemma parse_nan_last:
  "parse_rrd4j_file five_rows_nan_last ''D'' 1700000000 =
     Some [(1600000060, Flt 1), (1600000120, Flt 2), (1600000180, Flt 3), (1600000240, Flt 4)]"
  by (simp add: parse_rrd4j_file_def parse_header_def read_archive_def five_rows_nan_last_def
        read_defs unpack_d_values select_singleton)

lemma parse_old:
  "parse_rrd4j_file five_rows_old ''D'' 1700000000 =
     Some [(1699999760, Flt 1), (1699999820, Flt 2), (1699999880, Flt 3),
           (1699999940, Flt 4), (1700000000, Flt 5)]"
  by (simp add: parse_rrd4j_file_def parse_header_def read_archive_def five_rows_old_def
        read_defs unpack_d_values select_singleton)

text \<open>
  C3 as stated fails twice. With NaN as the newest of five values and a last update of
  1600000300, the most recent sample that survives carries 1600000240. With 1000300 as
  the last update of the header, the range check replaces it by the clock (here
  1700000000), and the timestamps are not 1000060, ..., 1000300.
\<close>

theorem parser_samples_counterexample:
  "(parse_header five_rows_nan_last 1700000000 = Some (60, 1, 1, 1600000300)
    \<and> parse_rrd4j_file five_rows_nan_last ''D'' 1700000000 =
        Some [(1600000060, Flt 1), (1600000120, Flt 2), (1600000180, Flt 3), (1600000240, Flt 4)]
    \<and> fst (last [(1600000060, Flt 1), (1600000120, Flt 2), (1600000180, Flt 3),
                  (1600000240 :: int, Flt 4)]) \<noteq> 1600000300)
   \<and> (unpack_QIIQ (py_slice five_rows_old 40 64) = Some (60, 1, 1, 1000300)
      \<and> parse_rrd4j_file five_rows_old ''D'' 1700000000 \<noteq>
          Some [(1000060, Flt 1), (1000120, Flt 2), (1000180, Flt 3),
                (1000240, Flt 4), (1000300, Flt 5)])"
proof -
  have "parse_header five_rows_nan_last 1700000000 = Some (60, 1, 1, 1600000300)"
    by (simp add: parse_header_def five_rows_nan_last_def read_defs)
  moreover have "unpack_QIIQ (py_slice five_rows_old 40 64) = Some (60, 1, 1, 1000300)"
    by (simp add: five_rows_old_def read_defs)
  ultimately show ?thesis
    by (simp add: parse_nan_last parse_old)
qed

end
